theory Spec2Isabelle
  imports Complex_Main "HOL-Library.Sublist" "HOL-Library.Multiset"
begin

section \<open>Go strings and run-time panics\<close>

text \<open>
  A Go \<^verbatim>\<open>string\<close> is a sequence of bytes; it is modelled as a \<^typ>\<open>string\<close>
  (a list of 8-bit characters), and \<^verbatim>\<open>len\<close> is \<^const>\<open>length\<close>.
  A slice expression whose bounds are out of range panics at run time; every function
  that can reach such an expression returns \<open>error + 'a\<close> with \<open>Inl Panic\<close> for it.
\<close>

datatype error = Panic

text \<open>\<^verbatim>\<open>strings.Index(s, sep)\<close>: the index of the first occurrence of \<open>sep\<close> in
  \<open>s\<close>, \<open>None\<close> for Go's \<open>-1\<close>.\<close>

fun Index :: "string \<Rightarrow> string \<Rightarrow> nat option" where
  "Index [] sep = (if sep = [] then Some 0 else None)"
| "Index (c # s) sep =
     (if prefix sep (c # s) then Some 0 else map_option Suc (Index s sep))"

section \<open>Output extractor: \<^verbatim>\<open>internal/pipeline/pipeline.go\<close>\<close>

definition chunkSize :: nat where
  "chunkSize = 40"

text \<open>
  The scan loop of \<^verbatim>\<open>extractNewOutput\<close> (\<^verbatim>\<open>for { idx := strings.Index(remaining, searchChunk) ... }\<close>).
  The result \<open>Inr None\<close> is the \<^verbatim>\<open>break\<close>, \<open>Inr (Some out)\<close> the \<^verbatim>\<open>return\<close> in the loop.
  \<^verbatim>\<open>suffixLen := len(before) - absIdx\<close> is negative when \<open>absIdx\<close> exceeds \<open>len(before)\<close>;
  then \<^verbatim>\<open>len(after) >= suffixLen\<close> holds and \<^verbatim>\<open>after[:suffixLen]\<close> panics.
  \<^verbatim>\<open>remaining[step:]\<close> panics when \<open>step\<close> exceeds \<open>len(remaining)\<close>.
\<close>

function scan_loop ::
  "string \<Rightarrow> string \<Rightarrow> string \<Rightarrow> nat \<Rightarrow> string \<Rightarrow> nat \<Rightarrow> error + string option" where
  "scan_loop before after searchChunk scanStart remaining offset =
     (case Index remaining searchChunk of
        None \<Rightarrow> Inr None
      | Some idx \<Rightarrow>
          (let absIdx = scanStart + offset + idx in
           if length before < absIdx then Inl Panic
           else
             (let suffixLen = length before - absIdx in
              if length after \<ge> suffixLen \<and> take suffixLen after = drop absIdx before
              then Inr (Some (drop suffixLen after))
              else
                (let step = idx + 1 in
                 if length remaining < step then Inl Panic
                 else scan_loop before after searchChunk scanStart
                        (drop step remaining) (offset + step)))))"
  by pat_completeness auto
termination
  by (relation "measure (\<lambda>(before, after, searchChunk, scanStart, remaining, offset). length remaining)")
     auto

text \<open>
  The fallback loop \<^verbatim>\<open>for k := chunkSize - 1; k > 0; k-- { ... }\<close>, started at \<open>k\<close>.
  \<^verbatim>\<open>before[len(before)-k:]\<close> panics when \<open>k\<close> exceeds \<open>len(before)\<close> (a negative
  lower bound), \<^verbatim>\<open>after[:k]\<close> when \<open>k\<close> exceeds \<open>len(after)\<close>.
\<close>

fun fallback_loop :: "string \<Rightarrow> string \<Rightarrow> nat \<Rightarrow> error + string" where
  "fallback_loop before after 0 = Inr after"
| "fallback_loop before after (Suc k') =
     (let k = Suc k' in
      if length before < k then Inl Panic
      else if length after < k then Inl Panic
      else if drop (length before - k) before = take k after then Inr (drop k after)
      else fallback_loop before after k')"

definition extractNewOutput :: "string \<Rightarrow> string \<Rightarrow> error + string" where
  "extractNewOutput before after =
     (if before = [] then Inr after
      else if after = [] then Inr []
      else if length after \<ge> length before \<and> take (length before) after = before
        then Inr (drop (length before) after)
      else
        (let searchChunk = (if length after \<ge> chunkSize then take chunkSize after else after);
             scanStart = (if int (length before) - int (length after) < 0 then 0
                          else length before - length after);
             searchRegion = drop scanStart before
         in case scan_loop before after searchChunk scanStart searchRegion 0 of
              Inl e \<Rightarrow> Inl e
            | Inr (Some out) \<Rightarrow> Inr out
            | Inr None \<Rightarrow>
                if length after > chunkSize then fallback_loop before after (chunkSize - 1)
                else Inr after))"


section \<open>Further functions of Go's \<^verbatim>\<open>strings\<close> package\<close>

definition Contains :: "string \<Rightarrow> string \<Rightarrow> bool" where
  "Contains s substr = (Index s substr \<noteq> None)"

definition HasPrefix :: "string \<Rightarrow> string \<Rightarrow> bool" where
  "HasPrefix s p = prefix p s"

definition HasSuffix :: "string \<Rightarrow> string \<Rightarrow> bool" where
  "HasSuffix s p = suffix p s"

definition TrimPrefix :: "string \<Rightarrow> string \<Rightarrow> string" where
  "TrimPrefix s p = (if prefix p s then drop (length p) s else s)"

text \<open>\<^verbatim>\<open>strings.Split(s, sep)\<close> for a non-empty separator (the call sites use
  \<^verbatim>\<open>"\n"\<close> and \<^verbatim>\<open>"**"\<close>): the pieces between the non-overlapping occurrences of
  \<open>sep\<close>, found from the left. The result is never empty; the \<open>[]\<close> branch of the
  \<open>case\<close> is never taken.\<close>

function Split :: "string \<Rightarrow> string \<Rightarrow> string list" where
  "Split s sep =
     (if s = [] then [[]]
      else if sep \<noteq> [] \<and> prefix sep s then [] # Split (drop (length sep) s) sep
      else (case Split (tl s) sep of
              [] \<Rightarrow> [[hd s]]
            | l # ls \<Rightarrow> (hd s # l) # ls))"
  by pat_completeness auto
termination
  by (relation "measure (\<lambda>(s, sep). length s)") auto

text \<open>
  \<^verbatim>\<open>unicode.IsSpace\<close> holds of the code points U+0009..U+000D, U+0020, U+0085, U+00A0,
  U+1680, U+2000..U+200A, U+2028, U+2029, U+202F, U+205F and U+3000. A string is bytes, so
  these are their UTF-8 encodings. Every one starts with a byte that is no continuation
  byte, so a white-space rune stands at a position exactly when one of the encodings is a
  prefix there (an invalid byte decodes to U+FFFD, of width 1, which is no space).
\<close>

definition space_encodings :: "string list" where
  "space_encodings =
     [[CHR 0x09], [CHR 0x0A], [CHR 0x0B], [CHR 0x0C], [CHR 0x0D], [CHR 0x20],
      [CHR 0xC2, CHR 0x85], [CHR 0xC2, CHR 0xA0],
      [CHR 0xE1, CHR 0x9A, CHR 0x80],
      [CHR 0xE2, CHR 0x80, CHR 0x80], [CHR 0xE2, CHR 0x80, CHR 0x81],
      [CHR 0xE2, CHR 0x80, CHR 0x82], [CHR 0xE2, CHR 0x80, CHR 0x83],
      [CHR 0xE2, CHR 0x80, CHR 0x84], [CHR 0xE2, CHR 0x80, CHR 0x85],
      [CHR 0xE2, CHR 0x80, CHR 0x86], [CHR 0xE2, CHR 0x80, CHR 0x87],
      [CHR 0xE2, CHR 0x80, CHR 0x88], [CHR 0xE2, CHR 0x80, CHR 0x89],
      [CHR 0xE2, CHR 0x80, CHR 0x8A],
      [CHR 0xE2, CHR 0x80, CHR 0xA8], [CHR 0xE2, CHR 0x80, CHR 0xA9],
      [CHR 0xE2, CHR 0x80, CHR 0xAF], [CHR 0xE2, CHR 0x81, CHR 0x9F],
      [CHR 0xE3, CHR 0x80, CHR 0x80]]"

text \<open>The width in bytes of the white-space rune at the start of \<open>s\<close>, 0 when there
  is none.\<close>

definition space_width :: "string \<Rightarrow> nat" where
  "space_width s =
     (case find (\<lambda>e. prefix e s) space_encodings of None \<Rightarrow> 0 | Some e \<Rightarrow> length e)"

text \<open>The same at the end of \<open>s\<close>: the last rune is found by stepping back to the
  nearest byte that is no continuation byte, which is the first byte of the encoding.\<close>

definition space_width_end :: "string \<Rightarrow> nat" where
  "space_width_end s =
     (case find (\<lambda>e. suffix e s) space_encodings of None \<Rightarrow> 0 | Some e \<Rightarrow> length e)"

lemma space_width_le: "space_width s \<le> length s"
  by (auto simp: space_width_def find_Some_iff prefix_length_le split: option.splits)

lemma space_width_end_le: "space_width_end s \<le> length s"
  by (auto simp: space_width_end_def find_Some_iff suffix_length_le split: option.splits)

function TrimLeftSpace :: "string \<Rightarrow> string" where
  "TrimLeftSpace s =
     (let n = space_width s in
      if n = 0 then s else TrimLeftSpace (drop n s))"
  by pat_completeness auto
termination
proof (relation "measure length")
  fix s :: string and n :: nat
  assume "n = space_width s" "n \<noteq> 0"
  with space_width_le [of s] show "(drop n s, s) \<in> measure length" by auto
qed simp

function TrimRightSpace :: "string \<Rightarrow> string" where
  "TrimRightSpace s =
     (let n = space_width_end s in
      if n = 0 then s else TrimRightSpace (take (length s - n) s))"
  by pat_completeness auto
termination
proof (relation "measure length")
  fix s :: string and n :: nat
  assume "n = space_width_end s" "n \<noteq> 0"
  with space_width_end_le [of s] show "(take (length s - n) s, s) \<in> measure length" by auto
qed simp

text \<open>\<^verbatim>\<open>strings.TrimSpace\<close>: leading white space is removed first, then trailing.\<close>

definition TrimSpace :: "string \<Rightarrow> string" where
  "TrimSpace s = TrimRightSpace (TrimLeftSpace s)"

text \<open>\<^verbatim>\<open>strings.Fields\<close>: the maximal runs of bytes between white-space runes;
  \<open>cur\<close> is the field being read, reversed.\<close>

function Fields_loop :: "string \<Rightarrow> string \<Rightarrow> string list" where
  "Fields_loop cur s =
     (if s = [] then (if cur = [] then [] else [rev cur])
      else
        (let n = space_width s in
         if n = 0 then Fields_loop (hd s # cur) (tl s)
         else (if cur = [] then [] else [rev cur]) @ Fields_loop [] (drop n s)))"
  by pat_completeness auto
termination
  by (relation "measure (\<lambda>(cur, s). length s)") auto

definition Fields :: "string \<Rightarrow> string list" where
  "Fields s = Fields_loop [] s"

text \<open>\<^verbatim>\<open>strings.Trim(s, cutset)\<close> for a cutset of ASCII characters: the bytes of the
  cutset are removed from both ends.\<close>

definition Trim :: "string \<Rightarrow> string \<Rightarrow> string" where
  "Trim s cutset =
     rev (dropWhile (\<lambda>c. c \<in> set cutset) (rev (dropWhile (\<lambda>c. c \<in> set cutset) s)))"

section \<open>State detection of the assign command: \<^verbatim>\<open>determineAgentState\<close>\<close>

definition idlePatterns :: "string list" where
  "idlePatterns =
     [''$'', ''>'', ''>>> '', ''claude>'', ''codex>'', ''gemini>'',
      ''What would you like'', ''How can I help'',
      ''Ready for'', ''Waiting for'']"

definition determineAgentState :: "string \<Rightarrow> string \<Rightarrow> string" where
  "determineAgentState scrollback agentType =
     (let lines = Split scrollback [CHR 0x0A] in
      if length lines = 0 then ''unknown''
      else
        (let lastLine = TrimSpace (lines ! (length lines - 1)) in
         if list_ex (\<lambda>p. HasSuffix lastLine p \<or> Contains lastLine p) idlePatterns
         then ''idle''
         else ''working''))"

section \<open>Work assignment: \<^verbatim>\<open>internal/coordinator/assign.go\<close>\<close>

text \<open>
  A \<^verbatim>\<open>float64\<close> is modelled as a real number: the model has the arithmetic and the
  comparisons of the source, without rounding, infinities or NaN. A \<^verbatim>\<open>time.Time\<close> is a
  natural number, and the reading of the clock (\<^verbatim>\<open>time.Now()\<close>) is the parameter
  \<open>now\<close>. A pointer that the code tests against \<^verbatim>\<open>nil\<close> is an \<open>option\<close>; the
  pointers it dereferences without a test (\<^verbatim>\<open>*AgentState\<close>) are the records themselves.
\<close>

record ScoreConfig =
  PreferCriticalPath :: bool
  PenalizeFileOverlap :: bool
  UseAgentProfiles :: bool
  BudgetAware :: bool
  ContextThreshold :: real
  ProfileTagBoostWeight :: real
  FocusPatternBoostWeight :: real

definition DefaultScoreConfig :: ScoreConfig where
  "DefaultScoreConfig =
     \<lparr>PreferCriticalPath = True, PenalizeFileOverlap = True, UseAgentProfiles = True,
      BudgetAware = True, ContextThreshold = 80,
      ProfileTagBoostWeight = 0, FocusPatternBoostWeight = 0\<rparr>"

text \<open>Modelled from the spec: the declarations of \<^verbatim>\<open>bv.ScoreBreakdown\<close>,
  \<^verbatim>\<open>bv.TriageRecommendation\<close>, \<^verbatim>\<open>bv.TriageData\<close> and \<^verbatim>\<open>bv.TriageResponse\<close> (package
  \<^verbatim>\<open>internal/bv\<close>) are not among the sources; the records have the fields that
  \<^verbatim>\<open>assign.go\<close> and its tests read.\<close>

record bv_ScoreBreakdown =
  Pagerank :: real
  BlockerRatio :: real
  TimeToImpact :: real

record TriageRecommendation =
  ID :: string
  Title :: string
  Type :: string
  Status :: string
  Priority :: int
  Score :: real
  Breakdown :: "bv_ScoreBreakdown option"
  UnblocksIDs :: "string list"
  Reasons :: "string list"

record TriageData =
  Recommendations :: "TriageRecommendation list"

record TriageResponse =
  Triage :: TriageData

text \<open>Modelled from the spec: the declaration of \<^verbatim>\<open>persona.Persona\<close> is not among
  the sources; the record has the two fields the scorer reads.\<close>

record Persona =
  Tags :: "string list"
  FocusPatterns :: "string list"

text \<open>Modelled from the spec: the declaration of \<^verbatim>\<open>AgentState\<close> (package
  \<^verbatim>\<open>coordinator\<close>) is not among the sources; the record has the fields that
  \<^verbatim>\<open>assign.go\<close> reads.\<close>

record AgentState =
  PaneID :: string
  AgentType :: string
  AgentMailName :: string
  ContextUsage :: real
  Reservations :: "string list"
  Profile :: "Persona option"

text \<open>Fields whose name another record of the source has too carry a prefix
  (\<open>wa_\<close>, \<open>ar_\<close>, \<open>ev_\<close>).\<close>

record WorkAssignment =
  BeadID :: string
  BeadTitle :: string
  AgentPaneID :: string
  wa_AgentMailName :: string
  wa_AgentType :: string
  AssignedAt :: nat
  wa_Priority :: int
  wa_Score :: real
  FilesToReserve :: "string list"

record AssignmentScoreBreakdown =
  BaseScore :: real
  AgentTypeBonus :: real
  CriticalPathBonus :: real
  FileOverlapPenalty :: real
  ContextPenalty :: real
  ProfileTagBonus :: real
  FocusPatternBonus :: real

record ScoredAssignment =
  Assignment :: WorkAssignment
  Recommendation :: TriageRecommendation
  Agent :: AgentState
  TotalScore :: real
  ScoreBreakdown :: AssignmentScoreBreakdown


text \<open>
  The functions of Go's standard library that the scorer calls and the model does not
  define: \<^verbatim>\<open>strings.ToLower\<close> (Unicode case mapping) and \<^verbatim>\<open>filepath.Match\<close> (\<open>None\<close>
  for the error \<^verbatim>\<open>ErrBadPattern\<close>). They are parameters of the model; every theorem
  holds for all of them.
\<close>

record stdlib =
  ToLower :: "string \<Rightarrow> string"
  filepath_Match :: "string \<Rightarrow> string \<Rightarrow> bool option"

subsection \<open>The scoring terms\<close>

definition estimateTaskComplexity :: "TriageRecommendation \<Rightarrow> real" where
  "estimateTaskComplexity rec =
     (let complexity = 0.5;
          complexity =
            (if Type rec = ''epic'' then complexity + 0.3
             else if Type rec = ''feature'' then complexity + 0.2
             else if Type rec = ''bug'' then complexity + 0.0
             else if Type rec = ''task'' then complexity - 0.1
             else if Type rec = ''chore'' then complexity - 0.2
             else complexity);
          complexity =
            (if Priority rec = 0 then complexity - 0.1
             else if Priority rec \<ge> 3 then complexity + 0.1
             else complexity);
          complexity =
            (if length (UnblocksIDs rec) \<ge> 5 then complexity + 0.15
             else if length (UnblocksIDs rec) \<ge> 3 then complexity + 0.1
             else complexity)
      in if complexity < 0 then 0 else if complexity > 1 then 1 else complexity)"

definition computeAgentTypeBonus :: "string \<Rightarrow> TriageRecommendation \<Rightarrow> real" where
  "computeAgentTypeBonus agentType rec =
     (let taskComplexity = estimateTaskComplexity rec in
      if agentType = ''cc'' \<or> agentType = ''claude'' then
        (if taskComplexity \<ge> 0.7 then 0.15
         else if taskComplexity \<le> 0.3 then - 0.05
         else 0)
      else if agentType = ''cod'' \<or> agentType = ''codex'' then
        (if taskComplexity \<le> 0.3 then 0.15
         else if taskComplexity \<ge> 0.7 then - 0.1
         else 0)
      else if agentType = ''gmi'' \<or> agentType = ''gemini'' then
        (if taskComplexity \<ge> 0.4 \<and> taskComplexity \<le> 0.6 then 0.05 else 0)
      else 0)"

definition computeCriticalPathBonus :: "bv_ScoreBreakdown \<Rightarrow> real" where
  "computeCriticalPathBonus breakdown =
     (let bonus = 0.0;
          bonus = (if Pagerank breakdown > 0.05 then bonus + Pagerank breakdown * 2 else bonus);
          bonus = (if BlockerRatio breakdown > 0.05 then bonus + BlockerRatio breakdown * 1.5
                   else bonus);
          bonus = (if TimeToImpact breakdown > 0.04 then bonus + 0.05 else bonus)
      in bonus)"

text \<open>The reservation map is a Go \<^verbatim>\<open>map[string][]string\<close>; a key that is absent, and
  every key of the \<^verbatim>\<open>nil\<close> map, reads as the empty slice.\<close>

definition computeFileOverlapPenalty ::
  "AgentState \<Rightarrow> (string \<rightharpoonup> string list) \<Rightarrow> real" where
  "computeFileOverlapPenalty agent reservations =
     (let agentReservations = (case reservations (PaneID agent) of None \<Rightarrow> [] | Some r \<Rightarrow> r);
          agentReservations =
            (if length agentReservations = 0 then Reservations agent else agentReservations);
          count = length agentReservations
      in if count = 0 then 0
         else if count \<le> 2 then 0.05
         else if count \<le> 5 then 0.1
         else 0.2)"

definition computeContextPenalty :: "real \<Rightarrow> real \<Rightarrow> real" where
  "computeContextPenalty contextUsage threshold =
     (if contextUsage \<le> threshold then 0
      else (let excess = contextUsage - threshold in (excess / 100) * 0.5))"

definition taskTagKeywords :: "(string \<times> string) list" where
  "taskTagKeywords =
     [(''test'', ''testing''), (''tests'', ''testing''), (''testing'', ''testing''),
      (''unittest'', ''testing''), (''unit test'', ''testing''), (''e2e'', ''testing''),
      (''qa'', ''testing''), (''coverage'', ''testing''),
      (''refactor'', ''architecture''), (''restructure'', ''architecture''),
      (''redesign'', ''architecture''), (''architecture'', ''architecture''),
      (''pattern'', ''architecture''), (''design'', ''architecture''),
      (''document'', ''documentation''), (''documentation'', ''documentation''),
      (''readme'', ''documentation''), (''docs'', ''documentation''),
      (''docstring'', ''documentation''), (''comment'', ''documentation''),
      (''implement'', ''implementation''), (''add'', ''implementation''),
      (''create'', ''implementation''), (''build'', ''implementation''),
      (''feature'', ''implementation''), (''develop'', ''implementation''),
      (''review'', ''review''), (''audit'', ''review''), (''inspect'', ''review''),
      (''check'', ''review''),
      (''fix'', ''bugs''), (''bug'', ''bugs''), (''patch'', ''bugs''), (''error'', ''bugs''),
      (''crash'', ''bugs'')]"

text \<open>The source collects the tags in a set and returns them in the iteration order of
  a Go map, which is not specified; the model returns them without duplicates in the
  order of the table. The only use of the result counts its members.\<close>

definition ExtractTaskTags :: "stdlib \<Rightarrow> string \<Rightarrow> string \<Rightarrow> string list" where
  "ExtractTaskTags L title description =
     (let text = ToLower L (title @ '' '' @ description) in
      remdups (map snd (filter (\<lambda>(keyword, tag). Contains text keyword) taskTagKeywords)))"

definition isFilePath :: "string \<Rightarrow> bool" where
  "isFilePath s =
     (if length s < 3 then False
      else if Contains s ''/'' \<or> Contains s [CHR 0x5C] then True
      else if list_ex (\<lambda>ext. HasSuffix s ext)
                [''.go'', ''.ts'', ''.js'', ''.py'', ''.rs'', ''.md'', ''.yaml'', ''.yml'',
                 ''.json'', ''.toml'']
        then True
      else if Contains s ''*'' \<or> Contains s ''**'' then True
      else if HasPrefix s ''.'' \<and> length s > 1 then True
      else False)"

definition ExtractMentionedFiles :: "string \<Rightarrow> string \<Rightarrow> string list" where
  "ExtractMentionedFiles title description =
     (let text = title @ '' '' @ description;
          words = Fields text
      in filter isFilePath
           (map (\<lambda>word. Trim word ('',.;:()[]{}'' @ [CHR 0x22, CHR 0x27, CHR 0x60])) words))"

definition computeProfileTagBonus ::
  "stdlib \<Rightarrow> Persona option \<Rightarrow> string list \<Rightarrow> real \<Rightarrow> real" where
  "computeProfileTagBonus L profile taskTags weight =
     (case profile of
        None \<Rightarrow> 0
      | Some p \<Rightarrow>
          if length (Tags p) = 0 \<or> length taskTags = 0 then 0
          else
            (let profileTags = set (map (ToLower L) (Tags p));
                 matches = length (filter (\<lambda>tag. ToLower L tag \<in> profileTags) taskTags)
             in if matches = 0 then 0
                else (let matchRatio = real matches / real (length (Tags p))
                      in matchRatio * weight)))"

definition matchFocusPattern :: "stdlib \<Rightarrow> string \<Rightarrow> string \<Rightarrow> bool" where
  "matchFocusPattern L pattern file =
     (let parts = Split pattern ''**'' in
      if Contains pattern ''**'' \<and> length parts = 2 then
        (let pfx = parts ! 0;
             sfx = TrimPrefix (parts ! 1) ''/''
         in if pfx \<noteq> [] \<and> \<not> HasPrefix file pfx then False
            else if sfx \<noteq> [] then HasSuffix file (TrimPrefix sfx ''*'')
            else True)
      else (case filepath_Match L pattern file of None \<Rightarrow> False | Some matched \<Rightarrow> matched))"

definition computeFocusPatternBonus ::
  "stdlib \<Rightarrow> Persona option \<Rightarrow> string list \<Rightarrow> real \<Rightarrow> real" where
  "computeFocusPatternBonus L profile mentionedFiles weight =
     (case profile of
        None \<Rightarrow> 0
      | Some p \<Rightarrow>
          if length (FocusPatterns p) = 0 \<or> length mentionedFiles = 0 then 0
          else
            (let matches =
                   length (filter (\<lambda>file. list_ex (\<lambda>pattern. matchFocusPattern L pattern file)
                                             (FocusPatterns p))
                             mentionedFiles)
             in if matches = 0 then 0
                else (let matchRatio = real matches / real (length mentionedFiles)
                      in matchRatio * weight)))"

definition scoreAssignment ::
  "stdlib \<Rightarrow> nat \<Rightarrow> AgentState \<Rightarrow> TriageRecommendation \<Rightarrow> ScoreConfig \<Rightarrow>
   (string \<rightharpoonup> string list) \<Rightarrow> ScoredAssignment" where
  "scoreAssignment L now agent rec config existingReservations =
     (let breakdown =
            \<lparr>BaseScore = Score rec, AgentTypeBonus = 0, CriticalPathBonus = 0,
             FileOverlapPenalty = 0, ContextPenalty = 0, ProfileTagBonus = 0,
             FocusPatternBonus = 0\<rparr>;
          breakdown =
            (if UseAgentProfiles config
             then breakdown\<lparr>AgentTypeBonus := computeAgentTypeBonus (AgentType agent) rec\<rparr>
             else breakdown);
          breakdown =
            (if UseAgentProfiles config \<and> Profile agent \<noteq> None then
               (let taskTags = ExtractTaskTags L (Title rec) [];
                    tagWeight = (if ProfileTagBoostWeight config = 0 then 0.15
                                 else ProfileTagBoostWeight config);
                    mentionedFiles = ExtractMentionedFiles (Title rec) [];
                    patternWeight = (if FocusPatternBoostWeight config = 0 then 0.10
                                     else FocusPatternBoostWeight config)
                in breakdown
                     \<lparr>ProfileTagBonus :=
                        computeProfileTagBonus L (Profile agent) taskTags tagWeight,
                      FocusPatternBonus :=
                        computeFocusPatternBonus L (Profile agent) mentionedFiles patternWeight\<rparr>)
             else breakdown);
          breakdown =
            (case Breakdown rec of
               Some b \<Rightarrow>
                 if PreferCriticalPath config
                 then breakdown\<lparr>CriticalPathBonus := computeCriticalPathBonus b\<rparr>
                 else breakdown
             | None \<Rightarrow> breakdown);
          breakdown =
            (if PenalizeFileOverlap config
             then breakdown
                    \<lparr>FileOverlapPenalty := computeFileOverlapPenalty agent existingReservations\<rparr>
             else breakdown);
          breakdown =
            (if BudgetAware config then
               (let threshold = (if ContextThreshold config = 0 then 80
                                 else ContextThreshold config)
                in breakdown
                     \<lparr>ContextPenalty := computeContextPenalty (ContextUsage agent) threshold\<rparr>)
             else breakdown);
          totalScore =
            BaseScore breakdown + AgentTypeBonus breakdown + CriticalPathBonus breakdown +
            ProfileTagBonus breakdown + FocusPatternBonus breakdown -
            FileOverlapPenalty breakdown - ContextPenalty breakdown
      in \<lparr>Assignment =
            \<lparr>BeadID = ID rec, BeadTitle = Title rec, AgentPaneID = PaneID agent,
             wa_AgentMailName = AgentMailName agent, wa_AgentType = AgentType agent,
             AssignedAt = now, wa_Priority = Priority rec, wa_Score = totalScore,
             FilesToReserve = []\<rparr>,
          Recommendation = rec, Agent = agent, TotalScore = totalScore,
          ScoreBreakdown = breakdown\<rparr>)"

subsection \<open>Selection: \<^verbatim>\<open>ScoreAndSelectAssignments\<close>\<close>

text \<open>The body of the inner loop of \<^verbatim>\<open>sortScoredAssignments\<close>: the elements at
  \<open>i\<close> and \<open>j\<close> are exchanged when the later one has the greater score.\<close>

definition swap_step :: "nat \<Rightarrow> nat \<Rightarrow> ScoredAssignment list \<Rightarrow> ScoredAssignment list" where
  "swap_step i j candidates =
     (if TotalScore (candidates ! j) > TotalScore (candidates ! i)
      then candidates[i := candidates ! j, j := candidates ! i]
      else candidates)"

text \<open>\<^verbatim>\<open>for i := 0; i < len(candidates)-1; i++ { for j := i + 1; j < len(candidates); j++ { ... } }\<close>:
  every index read is below the length.\<close>

definition sortScoredAssignments :: "ScoredAssignment list \<Rightarrow> ScoredAssignment list" where
  "sortScoredAssignments candidates =
     fold (\<lambda>i cs. fold (\<lambda>j cs. swap_step i j cs) [i + 1 ..< length candidates] cs)
       [0 ..< length candidates - 1] candidates"

text \<open>The candidates: every pair of an agent and a recommendation that is not blocked,
  in the order of the two nested loops, kept when its total score is positive.\<close>

definition score_candidates ::
  "stdlib \<Rightarrow> nat \<Rightarrow> AgentState list \<Rightarrow> TriageRecommendation list \<Rightarrow> ScoreConfig \<Rightarrow>
   (string \<rightharpoonup> string list) \<Rightarrow> ScoredAssignment list" where
  "score_candidates L now idleAgents recs config existingReservations =
     concat (map (\<lambda>agent.
       concat (map (\<lambda>rec.
         if Status rec = ''blocked'' then []
         else (let scored = scoreAssignment L now agent rec config existingReservations
               in if TotalScore scored > 0 then [scored] else []))
         recs))
       idleAgents)"

text \<open>The selection loop. The two Go maps \<^verbatim>\<open>map[string]bool\<close> read \<^verbatim>\<open>false\<close> at a key
  that was never set: they are functions into \<open>bool\<close>.\<close>

fun select_loop ::
  "ScoredAssignment list \<Rightarrow> ScoredAssignment list \<Rightarrow> (string \<Rightarrow> bool) \<Rightarrow> (string \<Rightarrow> bool) \<Rightarrow>
   ScoredAssignment list" where
  "select_loop [] selected assignedAgents assignedTasks = selected"
| "select_loop (candidate # rest) selected assignedAgents assignedTasks =
     (let agentID = PaneID (Agent candidate);
          taskID = ID (Recommendation candidate)
      in if assignedAgents agentID \<or> assignedTasks taskID
         then select_loop rest selected assignedAgents assignedTasks
         else select_loop rest (selected @ [candidate])
                (assignedAgents(agentID := True)) (assignedTasks(taskID := True)))"

definition ScoreAndSelectAssignments ::
  "stdlib \<Rightarrow> nat \<Rightarrow> AgentState list \<Rightarrow> TriageResponse option \<Rightarrow> ScoreConfig \<Rightarrow>
   (string \<rightharpoonup> string list) \<Rightarrow> ScoredAssignment list" where
  "ScoreAndSelectAssignments L now idleAgents triage config existingReservations =
     (case triage of
        None \<Rightarrow> []
      | Some t \<Rightarrow>
          if length idleAgents = 0 \<or> length (Recommendations (Triage t)) = 0 then []
          else
            (let candidates =
                   score_candidates L now idleAgents (Recommendations (Triage t)) config
                     existingReservations;
                 candidates = sortScoredAssignments candidates
             in select_loop candidates [] (\<lambda>_. False) (\<lambda>_. False)))"

subsection \<open>Automatic assignment: \<^verbatim>\<open>AssignWork\<close>\<close>

text \<open>\<^verbatim>\<open>findBestMatch\<close>: the loop returns at the first recommendation that is not
  blocked; \<open>None\<close> is the pair of \<^verbatim>\<open>nil\<close> pointers.\<close>

fun findBestMatch ::
  "nat \<Rightarrow> AgentState \<Rightarrow> TriageRecommendation list \<Rightarrow>
   (WorkAssignment \<times> TriageRecommendation) option" where
  "findBestMatch now agent [] = None"
| "findBestMatch now agent (rec # recommendations) =
     (if Status rec = ''blocked'' then findBestMatch now agent recommendations
      else
        (let assignment =
               \<lparr>BeadID = ID rec, BeadTitle = Title rec, AgentPaneID = PaneID agent,
                wa_AgentMailName = [], wa_AgentType = AgentType agent,
                AssignedAt = now, wa_Priority = Priority rec, wa_Score = Score rec,
                FilesToReserve = []\<rparr>;
             assignment =
               (if AgentMailName agent \<noteq> []
                then assignment\<lparr>wa_AgentMailName := AgentMailName agent\<rparr>
                else assignment)
         in Some (assignment, rec)))"


text \<open>
  Modelled from the spec: the declaration of \<^verbatim>\<open>SessionCoordinator\<close>, its method
  \<^verbatim>\<open>GetIdleAgents\<close>, the mail client and \<^verbatim>\<open>bv.GetTriage\<close> are not among the sources.
  The record has what \<^verbatim>\<open>AssignWork\<close> reads: \<^verbatim>\<open>config.AutoAssign\<close>, the idle agents
  that \<^verbatim>\<open>GetIdleAgents\<close> returns, the answer of \<^verbatim>\<open>bv.GetTriage\<close> (\<open>Inl\<close> its error,
  \<open>Inr None\<close> the \<^verbatim>\<open>nil\<close> response) and the mail client (\<open>None\<close> for \<^verbatim>\<open>nil\<close>), which
  answers a message about an assignment with \<open>None\<close> or with the text of an error.
\<close>

record SessionCoordinator =
  AutoAssign :: bool
  IdleAgents :: "AgentState list"
  GetTriage :: "string + TriageResponse option"
  mailClient :: "(WorkAssignment \<Rightarrow> TriageRecommendation \<Rightarrow> string option) option"





section \<open>Secret redaction: \<^verbatim>\<open>internal/safety/redaction/redaction.go\<close>\<close>

type_synonym Category = string

text \<open>Modelled from the spec: the declaration of \<^verbatim>\<open>Mode\<close> (a Go string type with the
  constants \<^verbatim>\<open>ModeOff\<close>, \<^verbatim>\<open>ModeWarn\<close>, \<^verbatim>\<open>ModeRedact\<close>, \<^verbatim>\<open>ModeBlock\<close>) is not among the
  sources; \<open>ModeOther\<close> is any other string.\<close>

datatype Mode = ModeOff | ModeWarn | ModeRedact | ModeBlock | ModeOther string


record Finding =
  Category :: Category
  Match :: string
  Redacted :: string
  Start :: int
  End :: int
  Line :: int
  Column :: int


text \<open>The struct \<^verbatim>\<open>match\<close> of the source, with the fields \<^verbatim>\<open>category\<close>, \<^verbatim>\<open>match\<close>,
  \<^verbatim>\<open>start\<close>, \<^verbatim>\<open>end\<close> and \<^verbatim>\<open>priority\<close>.\<close>

record match =
  m_category :: Category
  m_match :: string
  m_start :: int
  m_end :: int
  m_priority :: int

text \<open>
  Modelled from the spec: \<^verbatim>\<open>getPatterns\<close>, \<^verbatim>\<open>compileAllowlist\<close>, \<^verbatim>\<open>isAllowlisted\<close> and
  \<^verbatim>\<open>isCategoryDisabled\<close> are not among the sources, and the patterns are compiled regular
  expressions of Go's \<^verbatim>\<open>regexp\<close> package. They are parameters of the model: a pattern has
  its category, its priority and the function \<^verbatim>\<open>regex.FindAllStringIndex(input, -1)\<close>;
  \<open>isAllowlisted\<close> takes the matched text and the allowlist of the configuration.
\<close>

record pattern =
  p_category :: Category
  p_priority :: int
  FindAllStringIndex :: "string \<Rightarrow> (int \<times> int) list"



text \<open>
  \<^verbatim>\<open>sort.Slice(xs, less)\<close>, as an insertion sort. Go's sort is not stable: it leaves the
  order of elements that the comparison \<open>lt\<close> does not separate unspecified; the model keeps them in
  the order of the input.
\<close>

fun insert_by :: "('a \<Rightarrow> 'a \<Rightarrow> bool) \<Rightarrow> 'a \<Rightarrow> 'a list \<Rightarrow> 'a list" where
  "insert_by lt x [] = [x]"
| "insert_by lt x (y # ys) =
     (if lt y x then y # insert_by lt x ys else x # y # ys)"

definition sort_Slice :: "('a \<Rightarrow> 'a \<Rightarrow> bool) \<Rightarrow> 'a list \<Rightarrow> 'a list" where
  "sort_Slice lt xs = foldr (insert_by lt) xs []"

text \<open>The loop of \<^verbatim>\<open>deduplicateMatches\<close> over the sorted matches, with \<open>lastEnd\<close>.\<close>

fun remove_overlaps :: "match list \<Rightarrow> int \<Rightarrow> match list" where
  "remove_overlaps [] lastEnd = []"
| "remove_overlaps (m # matches) lastEnd =
     (if m_start m < lastEnd then remove_overlaps matches lastEnd
      else m # remove_overlaps matches (m_end m))"

definition deduplicateMatches :: "match list \<Rightarrow> match list" where
  "deduplicateMatches matches =
     (if length matches = 0 then matches
      else
        (let matches =
               sort_Slice (\<lambda>mi mj. if m_start mi \<noteq> m_start mj then m_start mi < m_start mj
                                     else m_priority mi > m_priority mj) matches
         in remove_overlaps matches (- 1)))"











section \<open>Session agent files: \<^verbatim>\<open>internal/agentmail/session.go\<close>\<close>

record SessionAgentInfo =
  AgentName :: string
  ProjectKey :: string
  RegisteredAt :: nat
  LastActiveAt :: nat

subsection \<open>Paths: Go's \<^verbatim>\<open>path/filepath\<close> on Unix\<close>

text \<open>\<^verbatim>\<open>strings.Join(elems, sep)\<close>.\<close>

fun strings_Join :: "string list \<Rightarrow> string \<Rightarrow> string" where
  "strings_Join [] sep = []"
| "strings_Join [e] sep = e"
| "strings_Join (e # es) sep = e @ sep @ strings_Join es sep"

text \<open>
  \<^verbatim>\<open>filepath.Clean\<close> reads the path element by element: an empty element and \<open>.\<close> are
  dropped; \<open>..\<close> removes the element before it when there is one that is not \<open>..\<close>, is
  dropped at the root, and is kept otherwise. \<open>out\<close> holds the elements written so far,
  the last one first.
\<close>

fun clean_elems :: "bool \<Rightarrow> string list \<Rightarrow> string list \<Rightarrow> string list" where
  "clean_elems rooted out [] = rev out"
| "clean_elems rooted out (e # es) =
     (if e = [] \<or> e = ''.'' then clean_elems rooted out es
      else if e = ''..'' then
        (case out of
           [] \<Rightarrow> if rooted then clean_elems rooted [] es else clean_elems rooted [''..''] es
         | prev # below \<Rightarrow>
             if prev = ''..'' then clean_elems rooted (''..'' # out) es
             else clean_elems rooted below es)
      else clean_elems rooted (e # out) es)"

definition Clean :: "string \<Rightarrow> string" where
  "Clean path =
     (if path = [] then ''.''
      else
        (let rooted = (hd path = CHR ''/'');
             body = strings_Join (clean_elems rooted [] (Split path ''/'')) ''/''
         in if rooted then ''/'' @ body
            else if body = [] then ''.''
            else body))"

text \<open>\<^verbatim>\<open>filepath.Join\<close>: the elements from the first non-empty one on, joined by the
  separator and cleaned; the empty string when all are empty.\<close>

definition Join :: "string list \<Rightarrow> string" where
  "Join elem =
     (case dropWhile (\<lambda>e. e = []) elem of
        [] \<Rightarrow> []
      | es \<Rightarrow> Clean (strings_Join es ''/''))"

text \<open>\<^verbatim>\<open>filepath.Dir\<close>: the path up to its last separator, cleaned.\<close>

definition Dir :: "string \<Rightarrow> string" where
  "Dir path = Clean (rev (dropWhile (\<lambda>c. c \<noteq> CHR ''/'') (rev path)))"

subsection \<open>The environment and the calls into package \<^verbatim>\<open>os\<close>\<close>

text \<open>
  The operating system is a parameter: the result of \<^verbatim>\<open>os.UserConfigDir()\<close> (\<open>None\<close>
  for its error), the variable \<^verbatim>\<open>HOME\<close>, the error that \<^verbatim>\<open>os.MkdirAll\<close> and \<^verbatim>\<open>os.WriteFile\<close>
  return for their arguments (\<open>None\<close> for \<^verbatim>\<open>nil\<close>), and \<^verbatim>\<open>json.MarshalIndent\<close> with the
  prefix and indentation of the source (\<open>Inl\<close> its error). The record passed is a pointer,
  \<open>None\<close> when it is \<^verbatim>\<open>nil\<close>.
\<close>

record os_env =
  UserConfigDir :: "string option"
  HOME :: string
  MkdirAll_error :: "string \<Rightarrow> nat \<Rightarrow> string option"
  WriteFile_error :: "string \<Rightarrow> string \<Rightarrow> nat \<Rightarrow> string option"
  MarshalIndent :: "SessionAgentInfo option \<Rightarrow> string + string"

text \<open>The calls that change the file system, in the order they are made: the effect of
  a function on the file system is the list of its calls.\<close>

datatype os_call =
  MkdirAll string nat
| WriteFile string string nat
| Rename string string

text \<open>The permission bits \<^verbatim>\<open>0755\<close> and \<^verbatim>\<open>0644\<close> are octal numerals.\<close>

definition perm_0755 :: nat where
  "perm_0755 = 7 * 64 + 5 * 8 + 5"

definition perm_0644 :: nat where
  "perm_0644 = 6 * 64 + 4 * 8 + 4"

definition sessionAgentPath :: "os_env \<Rightarrow> string \<Rightarrow> string" where
  "sessionAgentPath env sessionName =
     (let configDir = (case UserConfigDir env of
                         Some dir \<Rightarrow> dir
                       | None \<Rightarrow> Join [HOME env, ''.config''])
      in Join [configDir, ''ntm'', ''sessions'', sessionName, ''agent.json''])"

definition SaveSessionAgent ::
  "os_env \<Rightarrow> string \<Rightarrow> SessionAgentInfo option \<Rightarrow> os_call list \<times> string option" where
  "SaveSessionAgent env sessionName info =
     (let path = sessionAgentPath env sessionName;
          mkdir = MkdirAll (Dir path) perm_0755
      in case MkdirAll_error env (Dir path) perm_0755 of
           Some err \<Rightarrow> ([mkdir], Some (''creating session directory: '' @ err))
         | None \<Rightarrow>
             (case MarshalIndent env info of
                Inl err \<Rightarrow> ([mkdir], Some (''marshaling session agent: '' @ err))
              | Inr data \<Rightarrow>
                  (case WriteFile_error env path data perm_0644 of
                     Some err \<Rightarrow>
                       ([mkdir, WriteFile path data perm_0644],
                        Some (''writing session agent: '' @ err))
                   | None \<Rightarrow> ([mkdir, WriteFile path data perm_0644], None))))"

text \<open>
  What the specification calls an atomic write of \<open>path\<close> (write-temp, rename), as a
  predicate on the calls: some other file is written and renamed to \<open>path\<close>, and \<open>path\<close>
  itself is never written.
\<close>

definition writes_to :: "string \<Rightarrow> os_call \<Rightarrow> bool" where
  "writes_to p c = (case c of WriteFile q d m \<Rightarrow> q = p | _ \<Rightarrow> False)"

definition renames_temp_to :: "os_call list \<Rightarrow> string \<Rightarrow> os_call \<Rightarrow> bool" where
  "renames_temp_to calls path c =
     (case c of
        Rename tmp dst \<Rightarrow> dst = path \<and> tmp \<noteq> path \<and> list_ex (writes_to tmp) calls
      | _ \<Rightarrow> False)"

definition written_atomically :: "os_call list \<Rightarrow> string \<Rightarrow> bool" where
  "written_atomically calls path =
     (list_ex (renames_temp_to calls path) calls \<and> \<not> list_ex (writes_to path) calls)"

section \<open>Concrete inputs\<close>

text \<open>The scorer scenario of the specification: a Claude agent and a Codex agent, an epic,
  a chore and a blocked task.\<close>

definition example_agents :: "AgentState list" where
  "example_agents =
     [\<lparr>PaneID = ''A'', AgentType = ''cc'', AgentMailName = [], ContextUsage = 30,
       Reservations = [], Profile = None\<rparr>,
      \<lparr>PaneID = ''B'', AgentType = ''cod'', AgentMailName = [], ContextUsage = 50,
       Reservations = [], Profile = None\<rparr>]"

definition example_recs :: "TriageRecommendation list" where
  "example_recs =
     [\<lparr>ID = ''W1'', Title = ''First'', Type = ''epic'', Status = ''open'', Priority = 2,
       Score = 0.8, Breakdown = None, UnblocksIDs = [], Reasons = []\<rparr>,
      \<lparr>ID = ''W2'', Title = ''Second'', Type = ''chore'', Status = ''open'', Priority = 2,
       Score = 0.6, Breakdown = None, UnblocksIDs = [], Reasons = []\<rparr>,
      \<lparr>ID = ''W3'', Title = ''Third'', Type = ''task'', Status = ''blocked'', Priority = 2,
       Score = 0.9, Breakdown = None, UnblocksIDs = [], Reasons = []\<rparr>]"

definition example_triage :: TriageResponse where
  "example_triage = \<lparr>Triage = \<lparr>Recommendations = example_recs\<rparr>\<rparr>"

definition example_stdlib :: stdlib where
  "example_stdlib = \<lparr>ToLower = (\<lambda>s. s), filepath_Match = (\<lambda>pattern name. None)\<rparr>"

text \<open>A coordinator with automatic assignment, the two agents idle, the blocked task
  first in the list of recommendations, and no mail client.\<close>

definition example_coordinator :: SessionCoordinator where
  "example_coordinator =
     \<lparr>AutoAssign = True, IdleAgents = example_agents,
      GetTriage = Inr (Some \<lparr>Triage = \<lparr>Recommendations = rev example_recs\<rparr>\<rparr>),
      mailClient = None\<rparr>"

text \<open>A Unix environment in which every call succeeds, and a record to save.\<close>

definition example_info :: SessionAgentInfo where
  "example_info =
     \<lparr>AgentName = ''ntm_dev'', ProjectKey = ''/data/projects/dev'', RegisteredAt = 1,
      LastActiveAt = 2\<rparr>"

definition example_env :: os_env where
  "example_env =
     \<lparr>UserConfigDir = Some ''/home/u/.config'', HOME = ''/home/u'',
      MkdirAll_error = (\<lambda>path perm. None),
      WriteFile_error = (\<lambda>path data perm. None),
      MarshalIndent = (\<lambda>info. Inr ''{}'')\<rparr>"




section \<open>Properties of the output extractor\<close>

text \<open>
  Claim C1 (scrolled output: the longest suffix of \<open>before\<close> that is a prefix of
  \<open>after\<close> is cut off \<open>after\<close>). The code does not do this when \<open>after\<close> has at most
  \<open>chunkSize\<close> bytes: the search chunk is then the whole of \<open>after\<close>, and the loop that
  tries the shorter overlaps runs only when \<open>after\<close> is longer than \<open>chunkSize\<close>. On the
  scroll scenario of the specification (and on \<open>''abc''\<close>, \<open>''bcd''\<close>) the result is the
  whole of \<open>after\<close>. When \<open>after\<close> is longer than \<open>chunkSize\<close> and \<open>before\<close> shorter than
  \<open>chunkSize - 1\<close>, the fallback loop slices \<open>before\<close> at a negative index and panics.
\<close>

theorem extractNewOutput_scroll_returns_all:
  "extractNewOutput ''LINE1\<newline>LINE2\<newline>LINE3\<newline>'' ''LINE2\<newline>LINE3\<newline>LINE4\<newline>''
     = Inr ''LINE2\<newline>LINE3\<newline>LINE4\<newline>'' \<and>
   extractNewOutput ''abc'' ''bcd'' = Inr ''bcd'' \<and>
   extractNewOutput ''x'' (replicate 41 CHR ''y'') = Inl Panic"
  by code_simp

text \<open>
  Claim C5: when \<open>after\<close> is \<open>before\<close> followed by \<open>X\<close>, the extractor returns \<open>X\<close>;
  in particular it returns \<open>''bar''\<close> for \<open>''foo''\<close> and \<open>''foobar''\<close>; an empty \<open>before\<close>
  returns \<open>after\<close>, and an empty \<open>after\<close> returns the empty string.
\<close>

theorem extractNewOutput_append:
  "extractNewOutput before (before @ X) = Inr X \<and>
   extractNewOutput ''foo'' ''foobar'' = Inr ''bar'' \<and>
   extractNewOutput [] after = Inr after \<and>
   extractNewOutput before [] = Inr []"
  by (simp add: extractNewOutput_def)

section \<open>Properties of the state detection\<close>

text \<open>
  Claim C2 (a last line that ends with the prompt \<open>user@host:~$\<close> is idle, a last line
  \<open>cost is $5 for this\<close> is working). The code tests every idle pattern with
  \<^verbatim>\<open>strings.HasSuffix(lastLine, p) || strings.Contains(lastLine, p)\<close>, so a \<open>$\<close> anywhere
  in the last line means idle: the currency text is classified idle, not working. The
  prompt is classified idle when it is the last line, and working when a newline follows
  it, since the line examined is the text after the last newline.
\<close>

theorem determineAgentState_inline_dollar_idle:
  "determineAgentState ''cost is $5 for this'' agentType = ''idle'' \<and>
   determineAgentState ''user@host:~$ '' agentType = ''idle'' \<and>
   determineAgentState ''user@host:~$ \<newline>'' agentType = ''working''"
  by code_simp

section \<open>Properties of the work assignment\<close>

subsection \<open>Sorting permutes the candidates\<close>

lemma swap_step_mset:
  "i < length cs \<Longrightarrow> j < length cs \<Longrightarrow> mset (swap_step i j cs) = mset cs"
  by (simp add: swap_step_def mset_swap)

lemma swap_step_length: "length (swap_step i j cs) = length cs"
  by (simp add: swap_step_def)

lemma inner_fold_mset:
  "i < length cs \<Longrightarrow> \<forall>j \<in> set js. j < length cs \<Longrightarrow>
   mset (fold (\<lambda>j cs. swap_step i j cs) js cs) = mset cs \<and>
   length (fold (\<lambda>j cs. swap_step i j cs) js cs) = length cs"
proof (induction js arbitrary: cs)
  case Nil
  then show ?case by simp
next
  case (Cons j js)
  have "i < length (swap_step i j cs)" "\<forall>k \<in> set js. k < length (swap_step i j cs)"
    using Cons.prems by (simp_all add: swap_step_length)
  from Cons.IH [OF this] show ?case
    using Cons.prems by (simp add: swap_step_mset swap_step_length)
qed

lemma outer_fold_mset:
  "\<forall>i \<in> set is. i < length cs \<Longrightarrow> length cs = n \<Longrightarrow>
   mset (fold (\<lambda>i cs. fold (\<lambda>j cs. swap_step i j cs) [i + 1 ..< n] cs) is cs) = mset cs \<and>
   length (fold (\<lambda>i cs. fold (\<lambda>j cs. swap_step i j cs) [i + 1 ..< n] cs) is cs) = n"
proof (induction "is" arbitrary: cs)
  case Nil
  then show ?case by simp
next
  case (Cons i "is")
  let ?cs' = "fold (\<lambda>j cs. swap_step i j cs) [i + 1 ..< n] cs"
  have step: "mset ?cs' = mset cs \<and> length ?cs' = length cs"
    using Cons.prems by (intro inner_fold_mset) auto
  then have "\<forall>k \<in> set is. k < length ?cs'" "length ?cs' = n"
    using Cons.prems by simp_all
  from Cons.IH [OF this] step show ?case by simp
qed

lemma sortScoredAssignments_mset: "mset (sortScoredAssignments cs) = mset cs"
proof -
  have "\<forall>i \<in> set [0 ..< length cs - 1]. i < length cs" by auto
  from outer_fold_mset [OF this refl] show ?thesis
    by (simp add: sortScoredAssignments_def)
qed

lemma sortScoredAssignments_set: "set (sortScoredAssignments cs) = set cs"
  using sortScoredAssignments_mset [of cs] by (rule mset_eq_setD)

subsection \<open>The selection loop\<close>

lemma select_loop_subset:
  "set (select_loop cands selected asA asT) \<subseteq> set selected \<union> set cands"
proof (induction cands selected asA asT rule: select_loop.induct)
  case (1 selected asA asT)
  then show ?case by simp
next
  case (2 candidate rest selected asA asT)
  show ?case
  proof (cases "asA (PaneID (Agent candidate)) \<or> asT (ID (Recommendation candidate))")
    case True
    with "2.IH"(1) [OF refl refl] show ?thesis by (auto simp: Let_def)
  next
    case False
    define asA' where "asA' = asA(PaneID (Agent candidate) := True)"
    define asT' where "asT' = asT(ID (Recommendation candidate) := True)"
    have eq: "select_loop (candidate # rest) selected asA asT =
              select_loop rest (selected @ [candidate]) asA' asT'"
      using False by (simp add: Let_def asA'_def asT'_def)
    have "set (select_loop rest (selected @ [candidate]) asA' asT') \<subseteq>
          set (selected @ [candidate]) \<union> set rest"
      unfolding asA'_def asT'_def using False by (intro "2.IH"(2) [OF refl refl]) simp
    then show ?thesis unfolding eq by auto
  qed
qed

lemma select_loop_distinct:
  "distinct (map (\<lambda>s. PaneID (Agent s)) selected) \<Longrightarrow>
   distinct (map (\<lambda>s. ID (Recommendation s)) selected) \<Longrightarrow>
   \<forall>s \<in> set selected. asA (PaneID (Agent s)) \<Longrightarrow>
   \<forall>s \<in> set selected. asT (ID (Recommendation s)) \<Longrightarrow>
   distinct (map (\<lambda>s. PaneID (Agent s)) (select_loop cands selected asA asT)) \<and>
   distinct (map (\<lambda>s. ID (Recommendation s)) (select_loop cands selected asA asT))"
proof (induction cands selected asA asT rule: select_loop.induct)
  case (1 selected asA asT)
  then show ?case by simp
next
  case (2 candidate rest selected asA asT)
  show ?case
  proof (cases "asA (PaneID (Agent candidate)) \<or> asT (ID (Recommendation candidate))")
    case True
    with 2 show ?thesis by (simp add: Let_def)
  next
    case False
    define asA' where "asA' = asA(PaneID (Agent candidate) := True)"
    define asT' where "asT' = asT(ID (Recommendation candidate) := True)"
    have eq: "select_loop (candidate # rest) selected asA asT =
              select_loop rest (selected @ [candidate]) asA' asT'"
      using False by (simp add: Let_def asA'_def asT'_def)
    have d1: "distinct (map (\<lambda>s. PaneID (Agent s)) (selected @ [candidate]))"
      using False "2.prems" by auto
    have d2: "distinct (map (\<lambda>s. ID (Recommendation s)) (selected @ [candidate]))"
      using False "2.prems" by auto
    have m1: "\<forall>s \<in> set (selected @ [candidate]). asA' (PaneID (Agent s))"
      using "2.prems" by (auto simp: asA'_def)
    have m2: "\<forall>s \<in> set (selected @ [candidate]). asT' (ID (Recommendation s))"
      using "2.prems" by (auto simp: asT'_def)
    have "distinct (map (\<lambda>s. PaneID (Agent s))
             (select_loop rest (selected @ [candidate]) asA' asT')) \<and>
          distinct (map (\<lambda>s. ID (Recommendation s))
             (select_loop rest (selected @ [candidate]) asA' asT'))"
      using False d1 d2 m1 m2 unfolding asA'_def asT'_def
      by (intro "2.IH"(2) [OF refl refl]) simp_all
    then show ?thesis unfolding eq .
  qed
qed

lemma score_candidates_member:
  assumes "s \<in> set (score_candidates L now idleAgents recs config res)"
  shows "\<exists>agent \<in> set idleAgents. \<exists>rec \<in> set recs.
           Status rec \<noteq> ''blocked'' \<and> s = scoreAssignment L now agent rec config res \<and>
           TotalScore s > 0"
  using assms by (auto simp: score_candidates_def Let_def split: if_splits)

lemma scoreAssignment_fields:
  "Recommendation (scoreAssignment L now agent rec config res) = rec"
  "Agent (scoreAssignment L now agent rec config res) = agent"
  "AgentPaneID (Assignment (scoreAssignment L now agent rec config res)) = PaneID agent"
  "BeadID (Assignment (scoreAssignment L now agent rec config res)) = ID rec"
  "wa_Score (Assignment (scoreAssignment L now agent rec config res)) =
     TotalScore (scoreAssignment L now agent rec config res)"
  by (simp_all add: scoreAssignment_def Let_def)

lemma selected_from_candidates:
  assumes "s \<in> set (ScoreAndSelectAssignments L now idleAgents triage config res)"
  shows "\<exists>t. triage = Some t \<and>
           s \<in> set (score_candidates L now idleAgents (Recommendations (Triage t)) config res)"
proof (cases triage)
  case None
  with assms show ?thesis by (simp add: ScoreAndSelectAssignments_def)
next
  case (Some t)
  let ?cs = "score_candidates L now idleAgents (Recommendations (Triage t)) config res"
  have "s \<in> set (select_loop (sortScoredAssignments ?cs) [] (\<lambda>_. False) (\<lambda>_. False))"
    using assms Some
    by (simp add: ScoreAndSelectAssignments_def Let_def split: if_splits)
  with select_loop_subset [of "sortScoredAssignments ?cs" "[]"]
  have "s \<in> set (sortScoredAssignments ?cs)" by auto
  with Some show ?thesis by (simp add: sortScoredAssignments_set)
qed

subsection \<open>The first recommendation that is not blocked\<close>





lemmas example_defs =
  example_agents_def example_recs_def example_triage_def example_stdlib_def
  example_coordinator_def DefaultScoreConfig_def

lemmas scoring_defs =
  score_candidates_def scoreAssignment_def computeAgentTypeBonus_def
  estimateTaskComplexity_def computeFileOverlapPenalty_def computeContextPenalty_def

lemmas selection_defs =
  ScoreAndSelectAssignments_def sortScoredAssignments_def swap_step_def
  upt_rec [of _ "numeral _"] upt_rec [of _ "Suc _"]

subsection \<open>The claims\<close>

text \<open>
  Claim C3: for every list of idle agents, triage response, configuration and reservation
  map, the assignments that \<^verbatim>\<open>ScoreAndSelectAssignments\<close> returns have pairwise different
  agent pane ids and pairwise different work-item ids, and each has a total score above 0
  (which is also the score of its assignment).
\<close>

theorem ScoreAndSelectAssignments_at_most_one:
  "distinct (map (\<lambda>s. AgentPaneID (Assignment s))
      (ScoreAndSelectAssignments L now idleAgents triage config res)) \<and>
   distinct (map (\<lambda>s. BeadID (Assignment s))
      (ScoreAndSelectAssignments L now idleAgents triage config res)) \<and>
   (\<forall>s \<in> set (ScoreAndSelectAssignments L now idleAgents triage config res).
      TotalScore s > 0 \<and> wa_Score (Assignment s) = TotalScore s)"
proof -
  let ?sel = "ScoreAndSelectAssignments L now idleAgents triage config res"
  have fields: "AgentPaneID (Assignment s) = PaneID (Agent s) \<and>
                BeadID (Assignment s) = ID (Recommendation s) \<and>
                TotalScore s > 0 \<and> wa_Score (Assignment s) = TotalScore s"
    if "s \<in> set ?sel" for s
  proof -
    from selected_from_candidates [OF that] obtain t where
      t: "triage = Some t"
         "s \<in> set (score_candidates L now idleAgents (Recommendations (Triage t)) config res)"
      by auto
    from score_candidates_member [OF t(2)] show ?thesis
      by (auto simp: scoreAssignment_fields)
  qed
  have dist: "distinct (map (\<lambda>s. PaneID (Agent s)) ?sel) \<and>
              distinct (map (\<lambda>s. ID (Recommendation s)) ?sel)"
  proof (cases triage)
    case None
    then show ?thesis by (simp add: ScoreAndSelectAssignments_def)
  next
    case (Some t)
    show ?thesis
    proof (cases "length idleAgents = 0 \<or> length (Recommendations (Triage t)) = 0")
      case True
      with Some show ?thesis by (auto simp: ScoreAndSelectAssignments_def)
    next
      case False
      have "?sel = select_loop (sortScoredAssignments
                (score_candidates L now idleAgents (Recommendations (Triage t)) config res))
                [] (\<lambda>_. False) (\<lambda>_. False)"
        using Some False by (simp add: ScoreAndSelectAssignments_def Let_def)
      then show ?thesis using select_loop_distinct [of "[]"] by simp
    qed
  qed
  have e1: "map (\<lambda>s. AgentPaneID (Assignment s)) ?sel = map (\<lambda>s. PaneID (Agent s)) ?sel"
    by (rule map_cong) (simp_all add: fields)
  have e2: "map (\<lambda>s. BeadID (Assignment s)) ?sel = map (\<lambda>s. ID (Recommendation s)) ?sel"
    by (rule map_cong) (simp_all add: fields)
  show ?thesis unfolding e1 e2 using dist fields by blast
qed

theorem ScoreAndSelectAssignments_at_most_one_witness:
  "map (\<lambda>s. (AgentPaneID (Assignment s), BeadID (Assignment s), TotalScore s))
     (ScoreAndSelectAssignments example_stdlib 0 example_agents (Some example_triage)
        DefaultScoreConfig Map.empty)
     = [(''A'', ''W1'', 0.95), (''B'', ''W2'', 0.75)] \<and>
   distinct (map (\<lambda>s. AgentPaneID (Assignment s))
     (ScoreAndSelectAssignments example_stdlib 0 example_agents (Some example_triage)
        DefaultScoreConfig Map.empty)) \<and>
   distinct (map (\<lambda>s. BeadID (Assignment s))
     (ScoreAndSelectAssignments example_stdlib 0 example_agents (Some example_triage)
        DefaultScoreConfig Map.empty))"
  using ScoreAndSelectAssignments_at_most_one
    [of example_stdlib 0 example_agents "Some example_triage" DefaultScoreConfig Map.empty]
  by (simp add: example_defs scoring_defs selection_defs Let_def)

text \<open>
  Claim C4: a blocked recommendation is never selected. Every assignment that
  \<^verbatim>\<open>ScoreAndSelectAssignments\<close> returns is for a recommendation of the triage response
  whose status is not \<open>blocked\<close>, and a recommendation that \<^verbatim>\<open>findBestMatch\<close> returns is
  one of the list whose status is not \<open>blocked\<close>.
\<close>

theorem blocked_never_selected:
  "(\<forall>s \<in> set (ScoreAndSelectAssignments L now idleAgents triage config res).
      Status (Recommendation s) \<noteq> ''blocked'' \<and>
      BeadID (Assignment s) = ID (Recommendation s) \<and>
      (\<exists>t. triage = Some t \<and> Recommendation s \<in> set (Recommendations (Triage t)))) \<and>
   (\<forall>assignment rec. findBestMatch now agent recs = Some (assignment, rec) \<longrightarrow>
      Status rec \<noteq> ''blocked'' \<and> rec \<in> set recs \<and> BeadID assignment = ID rec)"
proof -
  have sel: "Status (Recommendation s) \<noteq> ''blocked'' \<and>
      BeadID (Assignment s) = ID (Recommendation s) \<and>
      (\<exists>t. triage = Some t \<and> Recommendation s \<in> set (Recommendations (Triage t)))"
    if "s \<in> set (ScoreAndSelectAssignments L now idleAgents triage config res)" for s
  proof -
    from selected_from_candidates [OF that] obtain t where
      t: "triage = Some t"
         "s \<in> set (score_candidates L now idleAgents (Recommendations (Triage t)) config res)"
      by auto
    from score_candidates_member [OF t(2)] t(1) show ?thesis
      by (auto simp: scoreAssignment_fields)
  qed
  have fbm: "Status rec \<noteq> ''blocked'' \<and> rec \<in> set recs \<and> BeadID assignment = ID rec"
    if "findBestMatch now agent recs = Some (assignment, rec)" for assignment rec
    using that by (induction recs) (auto simp: Let_def split: if_splits)
  from sel fbm show ?thesis by blast
qed

theorem blocked_never_selected_witness:
  "map (\<lambda>s. (ID (Recommendation s), Status (Recommendation s)))
     (ScoreAndSelectAssignments example_stdlib 0 example_agents (Some example_triage)
        DefaultScoreConfig Map.empty)
     = [(''W1'', ''open''), (''W2'', ''open'')] \<and>
   map_option (\<lambda>(assignment, rec). (BeadID assignment, ID rec, Status rec))
     (findBestMatch 0 (hd example_agents) (rev example_recs))
     = Some (''W2'', ''W2'', ''open'')"
  using blocked_never_selected
    [of example_stdlib 0 example_agents "Some example_triage" DefaultScoreConfig Map.empty
        "hd example_agents" "rev example_recs"]
  by (simp add: example_defs scoring_defs selection_defs Let_def)





section \<open>Properties of the secret redaction\<close>

subsection \<open>Placeholders, matches and the replacement of spans\<close>
















subsection \<open>The claims\<close>

text \<open>
  Claim C7 (overlapping matches: the match of higher priority is kept, and the earlier
  start decides only between equal priorities). The code sorts by start position first
  and by priority only between matches of the same start, and keeps the first match of
  every overlap: a generic match of priority 10 that starts at 0 is kept, and the key of
  priority 100 that starts at 6 inside it is dropped, in whichever order they are found,
  also when the key extends beyond the end of the generic match.
\<close>

theorem deduplicateMatches_earlier_start_wins:
  "deduplicateMatches
     [\<lparr>m_category = ''OPENAI_KEY'', m_match = ''sk-abc'', m_start = 6, m_end = 12,
       m_priority = 100\<rparr>,
      \<lparr>m_category = ''GENERIC_SECRET'', m_match = ''token=sk-abc'', m_start = 0, m_end = 12,
       m_priority = 10\<rparr>]
     = [\<lparr>m_category = ''GENERIC_SECRET'', m_match = ''token=sk-abc'', m_start = 0, m_end = 12,
         m_priority = 10\<rparr>] \<and>
   deduplicateMatches
     [\<lparr>m_category = ''GENERIC_SECRET'', m_match = ''token=sk-abc'', m_start = 0, m_end = 12,
       m_priority = 10\<rparr>,
      \<lparr>m_category = ''OPENAI_KEY'', m_match = ''sk-abc'', m_start = 6, m_end = 12,
       m_priority = 100\<rparr>]
     = [\<lparr>m_category = ''GENERIC_SECRET'', m_match = ''token=sk-abc'', m_start = 0, m_end = 12,
         m_priority = 10\<rparr>] \<and>
   deduplicateMatches
     [\<lparr>m_category = ''OPENAI_KEY'', m_match = ''sk-abcdefghijkl'', m_start = 6, m_end = 21,
       m_priority = 100\<rparr>,
      \<lparr>m_category = ''GENERIC_SECRET'', m_match = ''token=sk-abc'', m_start = 0, m_end = 12,
       m_priority = 10\<rparr>]
     = [\<lparr>m_category = ''GENERIC_SECRET'', m_match = ''token=sk-abc'', m_start = 0, m_end = 12,
         m_priority = 10\<rparr>]"
  by (simp add: deduplicateMatches_def sort_Slice_def)



section \<open>Properties of the session agent file\<close>

lemma Join_nonempty_head:
  "configDir \<noteq> [] \<Longrightarrow>
   Join [configDir, ''ntm'', ''sessions'', sessionName, ''agent.json''] =
   Clean (configDir @ ''/ntm/sessions/'' @ sessionName @ ''/agent.json'')"
  by (simp add: Join_def)

lemma no_rename_not_atomic:
  "\<not> written_atomically [MkdirAll d m] path"
  "\<not> written_atomically [MkdirAll d m, WriteFile p data m'] path"
  by (simp_all add: written_atomically_def renames_temp_to_def)

text \<open>
  Claim C9 as the code has it: \<^verbatim>\<open>SaveSessionAgent\<close> writes the record of a session to
  the path \<open><user-config>/ntm/sessions/<session>/agent.json\<close> (joined and cleaned by
  \<^verbatim>\<open>filepath.Join\<close>), after creating its directory with the permissions 0755, by one
  call of \<^verbatim>\<open>os.WriteFile\<close> on that path with the permissions 0644. No temporary file is
  written and nothing is renamed: the write is not atomic.
\<close>

theorem SaveSessionAgent_direct_write:
  "(UserConfigDir env = Some configDir \<and> configDir \<noteq> [] \<longrightarrow>
      sessionAgentPath env sessionName =
        Clean (configDir @ ''/ntm/sessions/'' @ sessionName @ ''/agent.json'')) \<and>
   (SaveSessionAgent env sessionName info = (calls, None) \<longrightarrow>
      (\<exists>data. MarshalIndent env info = Inr data \<and>
         calls = [MkdirAll (Dir (sessionAgentPath env sessionName)) perm_0755,
                  WriteFile (sessionAgentPath env sessionName) data perm_0644])) \<and>
   (SaveSessionAgent env sessionName info = (calls, err) \<longrightarrow>
      \<not> written_atomically calls (sessionAgentPath env sessionName)) \<and>
   perm_0755 = 493 \<and> perm_0644 = 420"
proof -
  have path: "sessionAgentPath env sessionName =
        Clean (configDir @ ''/ntm/sessions/'' @ sessionName @ ''/agent.json'')"
    if "UserConfigDir env = Some configDir" "configDir \<noteq> []"
    using that by (simp add: sessionAgentPath_def Join_nonempty_head)
  have ok: "\<exists>data. MarshalIndent env info = Inr data \<and>
         calls = [MkdirAll (Dir (sessionAgentPath env sessionName)) perm_0755,
                  WriteFile (sessionAgentPath env sessionName) data perm_0644]"
    if "SaveSessionAgent env sessionName info = (calls, None)"
    using that
    by (auto simp: SaveSessionAgent_def Let_def split: option.splits sum.splits)
  have direct: "\<not> written_atomically calls (sessionAgentPath env sessionName)"
    if "SaveSessionAgent env sessionName info = (calls, err)"
    using that
    by (auto simp: SaveSessionAgent_def Let_def no_rename_not_atomic
             split: option.splits sum.splits)
  have perms: "perm_0755 = 493" "perm_0644 = 420"
    by (simp_all add: perm_0755_def perm_0644_def)
  from path ok direct perms show ?thesis by blast
qed

lemmas session_defs =
  SaveSessionAgent_def sessionAgentPath_def Join_def Dir_def Clean_def
  perm_0755_def perm_0644_def example_env_def example_info_def

theorem SaveSessionAgent_direct_write_witness:
  "sessionAgentPath example_env ''dev'' = ''/home/u/.config/ntm/sessions/dev/agent.json'' \<and>
   SaveSessionAgent example_env ''dev'' (Some example_info) =
     ([MkdirAll ''/home/u/.config/ntm/sessions/dev'' 493,
       WriteFile ''/home/u/.config/ntm/sessions/dev/agent.json'' ''{}'' 420], None)"
  using SaveSessionAgent_direct_write
    [of example_env "''/home/u/.config''" "''dev''" "Some example_info"
        "[MkdirAll ''/home/u/.config/ntm/sessions/dev'' 493,
          WriteFile ''/home/u/.config/ntm/sessions/dev/agent.json'' ''{}'' 420]" None]
  by (simp add: session_defs Let_def)

text \<open>
  Claim C9 as stated fails: on a Unix environment in which every call succeeds, the calls
  of \<^verbatim>\<open>SaveSessionAgent\<close> are one \<^verbatim>\<open>MkdirAll\<close> and one \<^verbatim>\<open>WriteFile\<close> of the final path;
  they are no write of a temporary file followed by a rename.
\<close>

theorem SaveSessionAgent_not_atomic_counterexample:
  "fst (SaveSessionAgent example_env ''dev'' (Some example_info)) =
     [MkdirAll ''/home/u/.config/ntm/sessions/dev'' 493,
      WriteFile ''/home/u/.config/ntm/sessions/dev/agent.json'' ''{}'' 420] \<and>
   \<not> written_atomically (fst (SaveSessionAgent example_env ''dev'' (Some example_info)))
       ''/home/u/.config/ntm/sessions/dev/agent.json''"
  by (simp add: session_defs Let_def written_atomically_def renames_temp_to_def
        writes_to_def)

end
